theory Spec2Isabelle
  imports Main
begin

section \<open>Python strings\<close>

text \<open>
  The harness is modelled as Python 3 runs it (\<^verbatim>\<open>pexpect.spawnu\<close>, text output).
  A string is a \<^typ>\<open>string\<close>, each character a code point below 256.
\<close>

definition CR :: char where "CR = CHR 0x0D"
definition LF :: char where "LF = CHR 0x0A"
definition TAB :: char where "TAB = CHR 0x09"
definition DQ :: char where "DQ = CHR 0x22"
definition SQ :: char where "SQ = CHR 0x27"
definition BSL :: char where "BSL = CHR 0x5C"

text \<open>\<^verbatim>\<open>s.replace("\r\n", "\n")\<close>: left to right, occurrences do not overlap.\<close>

fun replace_crlf :: "string \<Rightarrow> string" where
  "replace_crlf [] = []"
| "replace_crlf [c] = [c]"
| "replace_crlf (c # d # cs) =
     (if c = CR \<and> d = LF then LF # replace_crlf cs else c # replace_crlf (d # cs))"

text \<open>\<^verbatim>\<open>s.lstrip("\n")\<close>\<close>

definition lstrip_nl :: "string \<Rightarrow> string" where
  "lstrip_nl s = dropWhile (\<lambda>c. c = LF) s"

text \<open>\<^verbatim>\<open>"\n".join(xs)\<close>\<close>

fun join_nl :: "string list \<Rightarrow> string" where
  "join_nl [] = []"
| "join_nl [x] = x"
| "join_nl (x # y # ys) = x @ LF # join_nl (y # ys)"

text \<open>\<^verbatim>\<open>str(n)\<close> for an integer.\<close>

definition digit :: "nat \<Rightarrow> char" where
  "digit d = char_of (48 + d)"

fun str_nat :: "nat \<Rightarrow> string" where
  "str_nat n = (if n < 10 then [digit n] else str_nat (n div 10) @ [digit (n mod 10)])"

declare str_nat.simps [simp del]

definition str_int :: "int \<Rightarrow> string" where
  "str_int i = (if i < 0 then CHR ''-'' # str_nat (nat (- i)) else str_nat (nat i))"

text \<open>
  \<^verbatim>\<open>repr(s)\<close> of a string: single quotes, unless the string holds a single quote and
  no double quote; the backslash and the chosen quote are escaped, tab, newline and
  carriage return have their letters, every other character that is not printable
  is written \<^verbatim>\<open>\xhh\<close>. Printable (\<^verbatim>\<open>str.isprintable\<close>) are, below 256, the code
  points 32 to 126 and 161 to 255 but 173: the controls, the no-break space 160 and
  the soft hyphen 173 are not.
\<close>

definition hexdigit :: "nat \<Rightarrow> char" where
  "hexdigit d = (if d < 10 then char_of (48 + d) else char_of (87 + d))"

definition printable :: "char \<Rightarrow> bool" where
  "printable c =
     (((32 :: nat) \<le> of_char c \<and> of_char c < (127 :: nat)) \<or>
      ((161 :: nat) \<le> of_char c \<and> of_char c \<noteq> (173 :: nat)))"

definition repr_char :: "char \<Rightarrow> char \<Rightarrow> string" where
  "repr_char q c =
     (if c = q \<or> c = BSL then [BSL, c]
      else if c = TAB then [BSL, CHR ''t'']
      else if c = LF then [BSL, CHR ''n'']
      else if c = CR then [BSL, CHR ''r'']
      else if \<not> printable c
        then [BSL, CHR ''x'', hexdigit ((of_char c :: nat) div 16), hexdigit ((of_char c :: nat) mod 16)]
      else [c])"

definition repr_quote :: "string \<Rightarrow> char" where
  "repr_quote s = (if SQ \<in> set s \<and> DQ \<notin> set s then DQ else SQ)"

definition repr_str :: "string \<Rightarrow> string" where
  "repr_str s = (let q = repr_quote s in q # concat (map (repr_char q) s) @ [q])"

section \<open>Values, messages, results, exceptions\<close>

text \<open>
  What a check hands to \<^verbatim>\<open>stdout\<close>, \<^verbatim>\<open>match\<close> and \<^verbatim>\<open>Mismatch\<close>: a string (a
  pattern), a list of strings, the class \<^verbatim>\<open>pexpect.EOF\<close>, or a \<^verbatim>\<open>File\<close> object. A
  \<^verbatim>\<open>File\<close> has its \<^verbatim>\<open>filename\<close>; the class defines no \<^verbatim>\<open>__repr__\<close>, so its
  \<^verbatim>\<open>repr\<close> is the interpreter's \<^verbatim>\<open><... File object at 0x...>\<close>, carried here as the
  second field.
\<close>

datatype pyval =
    Str string
  | StrList "string list"
  | EOFv
  | FileObj string string

text \<open>\<^verbatim>\<open>Checks.PASS = True\<close>, \<^verbatim>\<open>Checks.FAIL = False\<close>, \<^verbatim>\<open>Checks.SKIP = None\<close>\<close>

datatype result = PASS | FAIL | SKIP

text \<open>
  \<^verbatim>\<open>payload.error_message\<close> holds a string or a \<^verbatim>\<open>Mismatch(expected, actual)\<close>.
\<close>

datatype message = Text string | Mismatch pyval pyval

text \<open>Python truth of a message: a string is true when not empty, an object always.\<close>

fun truthy :: "message \<Rightarrow> bool" where
  "truthy (Text s) = (s \<noteq> [])"
| "truthy (Mismatch e a) = True"

text \<open>
  The exceptions of the modelled code. \<^verbatim>\<open>Error(rationale, helpers, result)\<close> is the
  class of the file; its last field here says whether \<^verbatim>\<open>__context__\<close> is a
  \<^verbatim>\<open>TIMEOUT\<close>.
\<close>

datatype exn =
    Error "message option" "string option" result bool
  | AttributeError
  | TypeError
  | IOError
  | OSError
  | ReError
  | UnicodeDecodeError

section \<open>Child: the wrapper of one spawned process\<close>

text \<open>What was sent to the process: \<^verbatim>\<open>sendline(line)\<close> or \<^verbatim>\<open>sendeof()\<close>.\<close>

datatype sent = SendLine string | SendEOF

text \<open>
  A \<^verbatim>\<open>Child\<close> with its \<^verbatim>\<open>Status\<close> (one attribute, \<^verbatim>\<open>failed\<close>), its \<^verbatim>\<open>Payload\<close>
  (\<^verbatim>\<open>output\<close>, \<^verbatim>\<open>exit\<close>, \<^verbatim>\<open>error_message\<close>, \<^verbatim>\<open>help_message\<close>), the log of the test it
  belongs to (\<^verbatim>\<open>self.test.log\<close>) and what the pexpect handle \<^verbatim>\<open>self.child\<close> holds: the
  input sent so far, whether it is closed, \<^verbatim>\<open>signalstatus\<close> and \<^verbatim>\<open>exitstatus\<close>.
\<close>

record child =
  status_failed :: bool
  payload_output :: string
  payload_exit :: "int option"
  payload_error_message :: message
  payload_help_message :: string
  test_log :: "string list"
  child_sent :: "sent list"
  child_closed :: bool
  child_signalstatus :: "int option"
  child_exitstatus :: "int option"

text \<open>\<^verbatim>\<open>Child(test, child)\<close> on a test whose log is \<open>lg\<close>.\<close>

definition Child_init :: "string list \<Rightarrow> child" where
  "Child_init lg = \<lparr> status_failed = False, payload_output = [], payload_exit = None,
     payload_error_message = Text [], payload_help_message = [], test_log = lg,
     child_sent = [], child_closed = False, child_signalstatus = None,
     child_exitstatus = None \<rparr>"

text \<open>
  A method returns \<^verbatim>\<open>self\<close>, or (only \<^verbatim>\<open>exit()\<close> without a code) the recorded exit
  code; or it raises. Either way the Child is left in some state.
\<close>

datatype retval = Self | ExitCode "int option"

datatype outcome = Returns retval child | Raises exn child

definition log_append :: "string \<Rightarrow> child \<Rightarrow> child" where
  "log_append l c = c\<lparr>test_log := test_log c @ [l]\<rparr>"

text \<open>\<^verbatim>\<open>Child.fail(error_message)\<close>\<close>

definition Child_fail :: "message \<Rightarrow> child \<Rightarrow> child" where
  "Child_fail error_message c =
     (let c1 = c\<lparr>status_failed := True\<rparr>
      in if \<not> truthy (payload_error_message c1)
         then c1\<lparr>payload_error_message := error_message\<rparr>
         else c1)"

text \<open>\<^verbatim>\<open>Child.kill()\<close>: \<^verbatim>\<open>close(force=True)\<close> leaves the handle closed, with the signal
  and the exit status the operating system reports (\<open>sg\<close>, \<open>ex\<close>).\<close>

definition Child_kill :: "int option \<Rightarrow> int option \<Rightarrow> child \<Rightarrow> child" where
  "Child_kill sg ex c = c\<lparr>child_closed := True, child_signalstatus := sg, child_exitstatus := ex\<rparr>"

text \<open>
  \<^verbatim>\<open>Child.stdin(line, prompt)\<close>. \<open>line = None\<close> stands for \<^verbatim>\<open>EOF\<close>; \<open>seen\<close> says whether
  \<^verbatim>\<open>self.child.expect(".+", timeout)\<close> found output (otherwise it raises \<^verbatim>\<open>TIMEOUT\<close> or
  \<^verbatim>\<open>EOF\<close>).
\<close>

definition Child_stdin :: "bool \<Rightarrow> string option \<Rightarrow> bool \<Rightarrow> child \<Rightarrow> outcome" where
  "Child_stdin seen line prompt c =
     (if status_failed c then Returns Self c
      else
        let c1 = (case line of
                    None \<Rightarrow> log_append ''sending EOF...'' c
                  | Some l \<Rightarrow> log_append (''sending input '' @ l @ ''...'') c)
        in if prompt \<and> \<not> seen
           then Returns Self (Child_fail (Text ''expected prompt for input, found none'') c1)
           else (case line of
                   None \<Rightarrow> Returns Self (c1\<lparr>child_sent := child_sent c1 @ [SendEOF]\<rparr>)
                 | Some l \<Rightarrow> Returns Self (c1\<lparr>child_sent := child_sent c1 @ [SendLine l]\<rparr>)))"

text \<open>\<^verbatim>\<open>Child.help(message)\<close>\<close>

definition Child_help :: "string \<Rightarrow> child \<Rightarrow> outcome" where
  "Child_help msg c =
     (if status_failed c then Returns Self c
      else Returns Self (c\<lparr>payload_help_message := msg\<rparr>))"

section \<open>Waiting for the process\<close>

text \<open>
  What the process does while \<^verbatim>\<open>wait\<close> runs is an argument of the model. One
  \<open>poll\<close> is one turn of the first loop, entered while \<^verbatim>\<open>time.time() <= end\<close>: the
  process is found dead (\<^verbatim>\<open>isalive()\<close> is false), or \<^verbatim>\<open>read_nonblocking\<close> raises
  \<^verbatim>\<open>TIMEOUT\<close> (no data yet), raises \<^verbatim>\<open>EOF\<close>, raises \<^verbatim>\<open>UnicodeDecodeError\<close>, or
  returns text. The list of polls ends where the deadline has passed. The reads of
  the second loop are numbered from 0: a read raises \<^verbatim>\<open>TIMEOUT\<close> or \<^verbatim>\<open>EOF\<close>
  (\<open>NoMore\<close>), returns text (\<open>More\<close>) or raises \<^verbatim>\<open>UnicodeDecodeError\<close> (\<open>Invalid\<close>).
  \<open>obs_signal\<close> and \<open>obs_exit\<close> are what \<^verbatim>\<open>close(force=True)\<close> leaves in
  \<^verbatim>\<open>signalstatus\<close> and \<^verbatim>\<open>exitstatus\<close>.
\<close>

datatype poll = Dead | NoData | AtEOF | BadBytes | Data string

datatype reading = NoMore | More string | Invalid

record observation =
  obs_polls :: "poll list"
  obs_reads :: "nat \<Rightarrow> reading"
  obs_signal :: "int option"
  obs_exit :: "int option"

datatype loop_end = Broke "string list" | Deadline | Undecodable

text \<open>The first loop of \<^verbatim>\<open>wait\<close>; its \<^verbatim>\<open>else\<close> branch is \<open>Deadline\<close>.\<close>

fun poll_loop :: "poll list \<Rightarrow> string list \<Rightarrow> loop_end" where
  "poll_loop [] out = Deadline"
| "poll_loop (Dead # ps) out = Broke out"
| "poll_loop (NoData # ps) out = poll_loop ps out"
| "poll_loop (AtEOF # ps) out = Broke out"
| "poll_loop (BadBytes # ps) out = Undecodable"
| "poll_loop (Data b # ps) out = poll_loop ps (out @ [b])"

text \<open>
  The second loop, \<^verbatim>\<open>while True\<close>, reads until a read raises. It catches \<^verbatim>\<open>TIMEOUT\<close>
  and \<^verbatim>\<open>EOF\<close> only, so \<^verbatim>\<open>UnicodeDecodeError\<close> leaves it as an exception. It need
  not end: a process that always has text ready keeps it running, and then the result
  is \<open>None\<close>.
\<close>

partial_function (option) drain :: "(nat \<Rightarrow> reading) \<Rightarrow> nat \<Rightarrow> string list \<Rightarrow> (exn + string list) option" where
  "drain rd k out =
     (case rd k of
        NoMore \<Rightarrow> Some (Inr out)
      | Invalid \<Rightarrow> Some (Inl UnicodeDecodeError)
      | More b \<Rightarrow> drain rd (Suc k) (out @ [b]))"

declare drain.simps [code]

text \<open>\<^verbatim>\<open>signal.SIGSEGV\<close>\<close>

definition SIGSEGV :: int where "SIGSEGV = 11"

text \<open>\<^verbatim>\<open>Child.wait(timeout)\<close>; \<open>None\<close> when the second loop does not end. An
  exception of the second loop escapes before anything of the Child is changed.\<close>

definition Child_wait :: "observation \<Rightarrow> child \<Rightarrow> outcome option" where
  "Child_wait ob c =
     (case poll_loop (obs_polls ob) [] of
        Deadline \<Rightarrow>
          Some (Raises (Error (Some (Text ''timed out while waiting for program to exit''))
                          None FAIL True) c)
      | Undecodable \<Rightarrow> Some (Returns Self (Child_fail (Text ''output not valid ASCII text'') c))
      | Broke out \<Rightarrow>
          (case drain (obs_reads ob) 0 out of
             None \<Rightarrow> None
           | Some (Inl e) \<Rightarrow> Some (Raises e c)
           | Some (Inr out') \<Rightarrow>
               let c1 = c\<lparr>payload_output := lstrip_nl (replace_crlf (concat out'))\<rparr>;
                   c2 = Child_kill (obs_signal ob) (obs_exit ob) c1
               in if child_signalstatus c2 = Some SIGSEGV
                  then Some (Returns Self
                    (Child_fail (Text ''failed to execute program due to segmentation fault'') c2))
                  else Some (Returns Self (c2\<lparr>payload_exit := child_exitstatus c2\<rparr>))))"

section \<open>Matching the output\<close>

text \<open>
  The world outside the file: \<open>files\<close> gives what \<^verbatim>\<open>File.read()\<close> returns for a file
  name (\<open>None\<close>: the file cannot be opened), \<open>re_match p s\<close> what
  \<^verbatim>\<open>bool(re.match(p, s))\<close> is (\<open>None\<close>: the pattern does not compile).
\<close>

record world =
  files :: "string \<Rightarrow> string option"
  re_match :: "string \<Rightarrow> string \<Rightarrow> bool option"

text \<open>\<^verbatim>\<open>"{}".format(v)\<close>\<close>

fun join_comma :: "string list \<Rightarrow> string" where
  "join_comma [] = []"
| "join_comma [x] = x"
| "join_comma (x # y # ys) = x @ '', '' @ join_comma (y # ys)"

fun format_val :: "pyval \<Rightarrow> string" where
  "format_val (Str s) = s"
| "format_val (StrList xs) = ''['' @ join_comma (map repr_str xs) @ '']''"
| "format_val EOFv = ''<class '' @ [SQ] @ ''pexpect.exceptions.EOF'' @ [SQ] @ ''>''"
| "format_val (FileObj fn r) = r"

text \<open>\<^verbatim>\<open>Child.match(output, str_output)\<close>. A \<^verbatim>\<open>File\<close> is read and compared literally; a
  string is a pattern for \<^verbatim>\<open>re.match\<close>; anything else has no \<^verbatim>\<open>read\<close> and is no
  pattern, so \<^verbatim>\<open>re.match\<close> raises \<^verbatim>\<open>TypeError\<close>. After a \<^verbatim>\<open>File\<close> or a pattern has
  matched, \<^verbatim>\<open>output\<close> is a string, never \<^verbatim>\<open>EOF\<close>, and the last test of the method is
  skipped.\<close>

definition Child_match :: "world \<Rightarrow> pyval \<Rightarrow> pyval option \<Rightarrow> child \<Rightarrow> outcome" where
  "Child_match w output str_output c =
     (if status_failed c then Returns Self c
      else
        let so = (case str_output of None \<Rightarrow> output | Some s \<Rightarrow> s);
            c1 = (if output = EOFv then log_append ''checking for EOF...'' c
                  else log_append (''checking for output '' @ [DQ] @ format_val so @ [DQ] @ ''...'') c);
            mismatch = Child_fail (Mismatch so (Str (replace_crlf (payload_output c1)))) c1
        in case output of
             FileObj fn r \<Rightarrow>
               (case files w fn of
                  None \<Rightarrow> Raises IOError c1
                | Some content \<Rightarrow>
                    if content = payload_output c1 then Returns Self c1
                    else Returns Self mismatch)
           | Str p \<Rightarrow>
               (case re_match w p (payload_output c1) of
                  None \<Rightarrow> Raises ReError c1
                | Some b \<Rightarrow> if b then Returns Self c1 else Returns Self mismatch)
           | StrList xs \<Rightarrow> Raises TypeError c1
           | EOFv \<Rightarrow> Raises TypeError c1)"

text \<open>Python truth of the \<^verbatim>\<open>output\<close> argument (\<open>None\<close> when it is omitted).\<close>

fun given :: "pyval option \<Rightarrow> bool" where
  "given None = False"
| "given (Some (Str s)) = (s \<noteq> [])"
| "given (Some (StrList xs)) = (xs \<noteq> [])"
| "given (Some EOFv) = True"
| "given (Some (FileObj fn r)) = True"

text \<open>\<^verbatim>\<open>Child.stdout(output, str_output, timeout)\<close>\<close>

definition Child_stdout :: "world \<Rightarrow> observation \<Rightarrow> pyval option \<Rightarrow> pyval option \<Rightarrow> child \<Rightarrow> outcome option" where
  "Child_stdout w ob output str_output c =
     (if status_failed c then Some (Returns Self c)
      else case Child_wait ob c of
             None \<Rightarrow> None
           | Some (Raises e c1) \<Rightarrow> Some (Raises e c1)
           | Some (Returns r c1) \<Rightarrow>
               (case output of
                  None \<Rightarrow> Some (Returns Self c1)
                | Some v \<Rightarrow>
                    if given output then Some (Child_match w v str_output c1)
                    else Some (Returns Self c1)))"

text \<open>\<^verbatim>\<open>Child.reject(timeout)\<close>\<close>

definition Child_reject :: "observation \<Rightarrow> child \<Rightarrow> outcome option" where
  "Child_reject ob c =
     (if status_failed c then Some (Returns Self c)
      else
        let c0 = log_append ''checking that input was rejected...'' c
        in case Child_wait ob c0 of
             None \<Rightarrow> None
           | Some (Raises (Error ra he re ctx) c1) \<Rightarrow>
               if \<not> ctx then Some (Raises (Error ra he re ctx) c1) else Some (Returns Self c1)
           | Some (Raises e c1) \<Rightarrow> Some (Raises e c1)
           | Some (Returns r c1) \<Rightarrow>
               Some (Returns Self
                 (Child_fail (Text ''expected program to reject input, but it did not'') c1)))"

text \<open>
  \<^verbatim>\<open>self.status.exit\<close>: class \<^verbatim>\<open>Status\<close> has the one attribute \<^verbatim>\<open>failed\<close> and nothing
  in the file assigns another, so reading \<^verbatim>\<open>exit\<close> from it raises
  \<^verbatim>\<open>AttributeError\<close>.
\<close>

definition Status_exit :: "child \<Rightarrow> exn + int option" where
  "Status_exit c = Inl AttributeError"

fun format_code :: "int option \<Rightarrow> string" where
  "format_code None = ''None''"
| "format_code (Some i) = str_int i"

text \<open>\<^verbatim>\<open>Child.exit(code, timeout)\<close>\<close>

definition Child_exit :: "observation \<Rightarrow> int option \<Rightarrow> child \<Rightarrow> outcome option" where
  "Child_exit ob code c =
     (if status_failed c then Some (Returns Self c)
      else case Child_wait ob c of
             None \<Rightarrow> None
           | Some (Raises e c1) \<Rightarrow> Some (Raises e c1)
           | Some (Returns r c1) \<Rightarrow>
               (case code of
                  None \<Rightarrow> Some (Returns (ExitCode (payload_exit c1)) c1)
                | Some k \<Rightarrow>
                    let c2 = log_append
                          (''checking that program exited with status '' @ str_int k @ ''...'') c1
                    in if payload_exit c2 \<noteq> Some k
                       then (case Status_exit c2 of
                               Inl e \<Rightarrow> Some (Raises e c2)
                             | Inr actual \<Rightarrow>
                                 Some (Returns Self (Child_fail
                                   (Text (''expected exit code '' @ str_int k @ '', not '' @
                                          format_code actual)) c2)))
                       else Some (Returns Self c2)))"

section \<open>Mismatch\<close>

text \<open>\<^verbatim>\<open>repr(v)\<close>\<close>

fun repr_val :: "pyval \<Rightarrow> string" where
  "repr_val (Str s) = repr_str s"
| "repr_val (StrList xs) = ''['' @ join_comma (map repr_str xs) @ '']''"
| "repr_val EOFv = ''<class '' @ [SQ] @ ''pexpect.exceptions.EOF'' @ [SQ] @ ''>''"
| "repr_val (FileObj fn r) = r"

text \<open>\<^verbatim>\<open>Mismatch.raw(s)\<close>; \<^verbatim>\<open>s[1:-1]\<close> is \<open>butlast (tl s)\<close>, also on a string shorter
  than two characters.\<close>

definition Mismatch_raw :: "pyval \<Rightarrow> string" where
  "Mismatch_raw v =
     (let s = (case v of StrList xs \<Rightarrow> Str (join_nl xs) | _ \<Rightarrow> v)
      in if s = EOFv then ''EOF''
         else
           let r = butlast (tl (repr_val s));
               r' = (if length r > 15 then take 15 r @ ''...'' else r)
           in [DQ] @ r' @ [DQ])"

text \<open>\<^verbatim>\<open>Mismatch.__str__\<close>\<close>

definition Mismatch_str :: "pyval \<Rightarrow> pyval \<Rightarrow> string" where
  "Mismatch_str expected actual =
     ''expected '' @ Mismatch_raw expected @ '', not '' @ Mismatch_raw actual"

section \<open>The check decorator\<close>

text \<open>
  A test case (an instance of \<^verbatim>\<open>Checks\<close>) and the state around it:
  \<^verbatim>\<open>config.tempdir\<close>, \<^verbatim>\<open>config.test_results\<close>, the directories of the file system
  (a path with the tree below it) and the current directory.
\<close>

record testcase =
  tc_result :: result
  tc_rationale :: "message option"
  tc_helpers :: "string option"
  tc_log :: "string list"
  tc_children :: "child list"
  tc_dir :: "string option"

text \<open>\<^verbatim>\<open>Checks.__init__\<close>\<close>

definition Checks_init :: testcase where
  "Checks_init = \<lparr> tc_result = FAIL, tc_rationale = None, tc_helpers = None, tc_log = [],
     tc_children = [], tc_dir = None \<rparr>"

record 'd config =
  tempdir :: string
  test_results :: "string \<Rightarrow> result option"
  fs :: "string \<Rightarrow> 'd option"
  cwd :: string

type_synonym 'd state = "'d config \<times> testcase"

text \<open>\<^verbatim>\<open>os.path.join(a, b)\<close>\<close>

definition path_join :: "string \<Rightarrow> string \<Rightarrow> string" where
  "path_join a b =
     (if b \<noteq> [] \<and> hd b = CHR ''/'' then b
      else if a = [] \<or> last a = CHR ''/'' then a @ b
      else a @ ''/'' @ b)"

text \<open>\<^verbatim>\<open>shutil.copytree(src, dst)\<close>: the source must exist and the destination must
  not.\<close>

definition copytree :: "string \<Rightarrow> string \<Rightarrow> (string \<Rightarrow> 'd option) \<Rightarrow> exn + (string \<Rightarrow> 'd option)" where
  "copytree src dst f =
     (case f src of
        None \<Rightarrow> Inl OSError
      | Some t \<Rightarrow> (case f dst of Some u \<Rightarrow> Inl OSError | None \<Rightarrow> Inr (f(dst \<mapsto> t))))"

text \<open>\<^verbatim>\<open>config.test_results.get(name)\<close>: \<^verbatim>\<open>None\<close>, which is \<^verbatim>\<open>Checks.SKIP\<close>, for a
  name with no result.\<close>

definition results_get :: "(string \<Rightarrow> result option) \<Rightarrow> string \<Rightarrow> result" where
  "results_get m n = (case m n of None \<Rightarrow> SKIP | Some r \<Rightarrow> r)"

text \<open>
  The \<^verbatim>\<open>wrapper\<close> that \<^verbatim>\<open>check(dependency)\<close> puts around the body \<open>func\<close> of the
  check called \<open>name\<close> (\<^verbatim>\<open>func.__name__\<close>, also the test's \<^verbatim>\<open>_testMethodName\<close>). The
  body takes the state and leaves a state, having raised or not. The wrapper returns
  the state it leaves and the exception that escapes it, if any.
\<close>

definition check_wrapper ::
  "('d state \<Rightarrow> 'd state \<times> exn option) \<Rightarrow> string \<Rightarrow> string option \<Rightarrow> 'd state \<Rightarrow> 'd state \<times> exn option" where
  "check_wrapper func name dependency st =
     (case st of (cfg, self) \<Rightarrow>
        (case (case dependency of
                 None \<Rightarrow> None
               | Some d \<Rightarrow> if d \<noteq> [] \<and> results_get (test_results cfg) d \<noteq> PASS
                          then Some d else None) of
           Some d \<Rightarrow>
             ((cfg\<lparr>test_results := (test_results cfg)(name \<mapsto> SKIP)\<rparr>,
               self\<lparr>tc_result := SKIP,
                    tc_rationale := Some (Text (''can'' @ [SQ] @ ''t check until a frown turns upside down''))\<rparr>),
              None)
         | None \<Rightarrow>
             let dst_dir = path_join (tempdir cfg) name;
                 self1 = self\<lparr>tc_dir := Some dst_dir\<rparr>;
                 src_dir = path_join (tempdir cfg)
                   (case dependency of None \<Rightarrow> ''_'' | Some d \<Rightarrow> if d = [] then ''_'' else d)
             in case copytree src_dir dst_dir (fs cfg) of
                  Inl e \<Rightarrow> ((cfg, self1), Some e)
                | Inr fs1 \<Rightarrow>
                    (case func (cfg\<lparr>fs := fs1, cwd := dst_dir\<rparr>, self1) of
                       ((cfg2, self2), None) \<Rightarrow>
                         if tc_children self2 \<noteq> [] \<and> status_failed (last (tc_children self2))
                         then
                           ((cfg2\<lparr>test_results := (test_results cfg2)(name \<mapsto> FAIL)\<rparr>,
                             self2\<lparr>tc_rationale :=
                                      Some (payload_error_message (last (tc_children self2))),
                                    tc_helpers :=
                                      Some (payload_help_message (last (tc_children self2))),
                                    tc_result := FAIL\<rparr>),
                            None)
                         else
                           ((cfg2\<lparr>test_results := (test_results cfg2)(name \<mapsto> PASS)\<rparr>,
                             self2\<lparr>tc_result := PASS\<rparr>),
                            None)
                     | ((cfg2, self2), Some (Error ra he re ctx)) \<Rightarrow>
                         ((cfg2\<lparr>test_results := (test_results cfg2)(name \<mapsto> re)\<rparr>,
                           self2\<lparr>tc_rationale := ra, tc_helpers := he, tc_result := re\<rparr>),
                          None)
                     | ((cfg2, self2), Some e) \<Rightarrow> ((cfg2, self2), Some e))))"

section \<open>The valgrind report\<close>










section \<open>The latch of a failed Child\<close>

text \<open>
  C1 (as amended). On a Child whose \<^verbatim>\<open>failed\<close> latch is set, \<^verbatim>\<open>stdin\<close>, \<^verbatim>\<open>stdout\<close>,
  \<^verbatim>\<open>reject\<close>, \<^verbatim>\<open>exit\<close>, \<^verbatim>\<open>match\<close> and \<^verbatim>\<open>help\<close> return the Child unchanged, whatever
  the process does meanwhile; and a \<^verbatim>\<open>fail\<close> call never replaces an error message that is
  not empty: not the one the Child holds, and not the one an earlier \<^verbatim>\<open>fail\<close> with a
  non-empty message left on any Child.
\<close>

theorem C1_latch:
  assumes "status_failed c"
  shows "Child_stdin seen line prompt c = Returns Self c
       \<and> Child_stdout w ob out so c = Some (Returns Self c)
       \<and> Child_reject ob c = Some (Returns Self c)
       \<and> Child_exit ob code c = Some (Returns Self c)
       \<and> Child_match w v so c = Returns Self c
       \<and> Child_help m c = Returns Self c
       \<and> (truthy (payload_error_message c) \<longrightarrow>
            payload_error_message (Child_fail m2 c) = payload_error_message c)
       \<and> (truthy m1 \<longrightarrow> payload_error_message (Child_fail m2 (Child_fail m1 c0))
                         = payload_error_message (Child_fail m1 c0))"
  using assms
  by (simp add: Child_stdin_def Child_stdout_def Child_reject_def Child_exit_def
      Child_match_def Child_help_def Child_fail_def Let_def)

theorem C1_latch_witness:
  "status_failed (Child_fail (Text ''boom'') (Child_init []))
   \<and> Child_stdin True (Some ''1'') True (Child_fail (Text ''boom'') (Child_init []))
       = Returns Self (Child_fail (Text ''boom'') (Child_init []))
   \<and> Child_help ''hint'' (Child_fail (Text ''boom'') (Child_init []))
       = Returns Self (Child_fail (Text ''boom'') (Child_init []))
   \<and> payload_error_message (Child_fail (Text ''late'') (Child_fail (Text ''boom'') (Child_init [])))
       = Text ''boom''"
proof -
  have f: "status_failed (Child_fail (Text ''boom'') (Child_init []))"
    by (simp add: Child_fail_def Child_init_def)
  have m: "payload_error_message (Child_fail (Text ''boom'') (Child_init [])) = Text ''boom''"
    by (simp add: Child_fail_def Child_init_def)
  from C1_latch [OF f, of True "Some ''1''" True _ _ _ _ _ _ "''hint''" "Text ''late''"
      "Text ''boom''" "Child_init []"] f m
  show ?thesis by simp
qed

text \<open>
  \<^verbatim>\<open>wait\<close> does not test the latch. A Child has failed with the message \<^verbatim>\<open>boom\<close>; its
  process has written \<^verbatim>\<open>x\<close> and is dead at the next poll: \<^verbatim>\<open>wait\<close> does not return
  the Child unchanged (it stores the output, closes the handle and records the exit
  code). And the empty message that \<^verbatim>\<open>fail()\<close> without an argument leaves is replaced
  by the message of a later \<^verbatim>\<open>fail\<close>.
\<close>

theorem C1_counterexample:
  "status_failed (Child_fail (Text ''boom'') (Child_init []))
   \<and> Child_wait \<lparr>obs_polls = [Data ''x'', Dead], obs_reads = (\<lambda>k. NoMore),
                  obs_signal = None, obs_exit = Some 0\<rparr>
        (Child_fail (Text ''boom'') (Child_init []))
      \<noteq> Some (Returns Self (Child_fail (Text ''boom'') (Child_init [])))
   \<and> payload_error_message (Child_fail (Text []) (Child_init [])) = Text []
   \<and> payload_error_message (Child_fail (Text ''late'') (Child_fail (Text []) (Child_init [])))
       = Text ''late''"
  by (simp add: Child_wait_def drain.simps Child_fail_def Child_init_def Child_kill_def
      Let_def SIGSEGV_def lstrip_nl_def LF_def)

section \<open>What wait returns\<close>




lemma wait_broke:
  "poll_loop (obs_polls ob) [] = Broke out \<Longrightarrow> drain (obs_reads ob) 0 out = Some (Inr out') \<Longrightarrow>
   Child_wait ob c = Some (Returns Self
     (if obs_signal ob = Some SIGSEGV
      then Child_fail (Text ''failed to execute program due to segmentation fault'')
             (Child_kill (obs_signal ob) (obs_exit ob)
                (c\<lparr>payload_output := lstrip_nl (replace_crlf (concat out'))\<rparr>))
      else (Child_kill (obs_signal ob) (obs_exit ob)
                (c\<lparr>payload_output := lstrip_nl (replace_crlf (concat out'))\<rparr>))
             \<lparr>payload_exit := obs_exit ob\<rparr>))"
  by (simp add: Child_wait_def Let_def Child_kill_def)




text \<open>
  C6 (as amended). When the first loop of \<^verbatim>\<open>wait\<close> is left by \<^verbatim>\<open>break\<close> (the process
  is dead or at end of file) and the rest of the pipe is read without a decoding
  error, \<^verbatim>\<open>wait\<close> returns the Child. If the process was ended by \<^verbatim>\<open>SIGSEGV\<close>, the Child
  is failed and \<^verbatim>\<open>payload.exit\<close> is not touched; the message is the one about the
  segmentation fault when no message was recorded before, and the earlier message
  otherwise. If the process was not ended by \<^verbatim>\<open>SIGSEGV\<close>, \<^verbatim>\<open>payload.exit\<close> is its exit
  status, and neither the latch nor the message changes.
\<close>

theorem C6_wait_segfault:
  assumes "poll_loop (obs_polls ob) [] = Broke out"
    and "drain (obs_reads ob) 0 out = Some (Inr out')"
  shows "\<exists>c'. Child_wait ob c = Some (Returns Self c') \<and>
      (if obs_signal ob = Some SIGSEGV
       then status_failed c' \<and> payload_exit c' = payload_exit c \<and>
            payload_error_message c' =
              (if truthy (payload_error_message c) then payload_error_message c
               else Text ''failed to execute program due to segmentation fault'')
       else payload_exit c' = obs_exit ob \<and> status_failed c' = status_failed c \<and>
            payload_error_message c' = payload_error_message c)"
  using wait_broke [OF assms, of c]
  by (simp add: Child_fail_def Child_kill_def Let_def)

theorem C6_wait_segfault_witness:
  "(\<exists>c'. Child_wait \<lparr>obs_polls = [Data ''x'', Dead], obs_reads = (\<lambda>k. NoMore),
                        obs_signal = Some 11, obs_exit = None\<rparr> (Child_init [])
          = Some (Returns Self c') \<and> status_failed c' \<and> payload_exit c' = None \<and>
          payload_error_message c' = Text ''failed to execute program due to segmentation fault'')
   \<and> (\<exists>c'. Child_wait \<lparr>obs_polls = [Data ''x'', Dead], obs_reads = (\<lambda>k. NoMore),
                        obs_signal = None, obs_exit = Some 3\<rparr> (Child_init [])
          = Some (Returns Self c') \<and> \<not> status_failed c' \<and> payload_exit c' = Some 3)"
proof -
  let ?a = "\<lparr>obs_polls = [Data ''x'', Dead], obs_reads = (\<lambda>k. NoMore),
              obs_signal = Some (11::int), obs_exit = None\<rparr>"
  let ?b = "\<lparr>obs_polls = [Data ''x'', Dead], obs_reads = (\<lambda>k. NoMore),
              obs_signal = None, obs_exit = Some (3::int)\<rparr>"
  have pa: "poll_loop (obs_polls ?a) [] = Broke [''x'']" by simp
  have da: "drain (obs_reads ?a) 0 [''x''] = Some (Inr [''x''])" by (simp add: drain.simps)
  have pb: "poll_loop (obs_polls ?b) [] = Broke [''x'']" by simp
  have db: "drain (obs_reads ?b) 0 [''x''] = Some (Inr [''x''])" by (simp add: drain.simps)
  from C6_wait_segfault [OF pa da, of "Child_init []"] C6_wait_segfault [OF pb db, of "Child_init []"]
  show ?thesis by (auto simp add: SIGSEGV_def Child_init_def)
qed

text \<open>
  Three processes ended by \<^verbatim>\<open>SIGSEGV\<close> for which \<^verbatim>\<open>wait\<close> records no failure about
  the segmentation fault. The first poll meets undecodable output: the message is
  that the output is not valid ASCII text. The Child failed before with the message
  \<^verbatim>\<open>boom\<close>: that message is kept. The process is dead at the first poll and the
  read after the loop meets undecodable output: \<^verbatim>\<open>UnicodeDecodeError\<close> escapes and the
  Child has not failed.
\<close>

theorem C6_counterexample:
  "Child_wait \<lparr>obs_polls = [BadBytes], obs_reads = (\<lambda>k. NoMore),
                 obs_signal = Some SIGSEGV, obs_exit = None\<rparr> (Child_init [])
     = Some (Returns Self ((Child_init [])\<lparr>status_failed := True,
          payload_error_message := Text ''output not valid ASCII text''\<rparr>))
   \<and> (\<exists>c'. Child_wait \<lparr>obs_polls = [Dead], obs_reads = (\<lambda>k. NoMore),
                        obs_signal = Some SIGSEGV, obs_exit = None\<rparr>
            (Child_fail (Text ''boom'') (Child_init []))
          = Some (Returns Self c') \<and> payload_error_message c' = Text ''boom'')
   \<and> Child_wait \<lparr>obs_polls = [Dead], obs_reads = (\<lambda>k. Invalid),
                   obs_signal = Some SIGSEGV, obs_exit = None\<rparr> (Child_init [])
     = Some (Raises UnicodeDecodeError (Child_init []))
   \<and> \<not> status_failed (Child_init [])"
  by (simp add: Child_wait_def drain.simps Child_fail_def Child_init_def Child_kill_def
      Let_def lstrip_nl_def)

section \<open>reject\<close>




section \<open>exit\<close>

lemma digit_0: "digit 0 = CHR ''0''"
  by code_simp

lemma exit_mismatch_raises:
  assumes "\<not> status_failed c" and "Child_wait ob c = Some (Returns r c1)"
    and "payload_exit c1 \<noteq> Some k"
  shows "Child_exit ob (Some k) c = Some (Raises AttributeError
      (log_append (''checking that program exited with status '' @ str_int k @ ''...'') c1))"
  using assms by (simp add: Child_exit_def Let_def Status_exit_def log_append_def)

lemma exit_without_code:
  assumes "\<not> status_failed c" and "Child_wait ob c = Some (Returns r c1)"
  shows "Child_exit ob None c = Some (Returns (ExitCode (payload_exit c1)) c1)"
  using assms by (simp add: Child_exit_def)

text \<open>
  C3. The process is dead at the first poll, with exit status 1. \<^verbatim>\<open>exit(0)\<close> does not
  fail the Child with a message: building the message reads \<^verbatim>\<open>self.status.exit\<close>, and
  \<^verbatim>\<open>AttributeError\<close> escapes, the latch unset and the error message empty.
  \<^verbatim>\<open>exit()\<close> without a code returns the exit status 1.
\<close>

theorem C3_exit_mismatch:
  "Child_exit \<lparr>obs_polls = [Dead], obs_reads = (\<lambda>k. NoMore), obs_signal = None,
                obs_exit = Some 1\<rparr> (Some 0) (Child_init [])
     = Some (Raises AttributeError
         ((Child_init [''checking that program exited with status 0...''])
            \<lparr>payload_exit := Some 1, child_closed := True, child_exitstatus := Some 1\<rparr>))
   \<and> Child_exit \<lparr>obs_polls = [Dead], obs_reads = (\<lambda>k. NoMore), obs_signal = None,
                  obs_exit = Some 1\<rparr> None (Child_init [])
     = Some (Returns (ExitCode (Some 1))
         ((Child_init [])
            \<lparr>payload_exit := Some 1, child_closed := True, child_exitstatus := Some 1\<rparr>))"
  by (simp add: Child_exit_def Child_wait_def drain.simps Child_kill_def Child_init_def
      Let_def SIGSEGV_def lstrip_nl_def log_append_def Status_exit_def str_int_def
      str_nat.simps digit_0)

section \<open>help\<close>

text \<open>
  C4 (as amended). \<^verbatim>\<open>help(message)\<close> returns the Child; it stores the message as the
  payload's \<^verbatim>\<open>help_message\<close> when the Child has not failed, and changes nothing when
  the Child has failed.
\<close>

theorem C4_help:
  "Child_help msg c =
     Returns Self (if status_failed c then c else c\<lparr>payload_help_message := msg\<rparr>)"
  by (simp add: Child_help_def)

text \<open>
  On a new Child, \<^verbatim>\<open>help\<close> is not a no-op; on a Child that failed with \<^verbatim>\<open>boom\<close>, it
  is, and no hint is attached to the failure.
\<close>

theorem C4_counterexample:
  "Child_help ''hint'' (Child_init []) \<noteq> Returns Self (Child_init [])
   \<and> Child_help ''hint'' (Child_fail (Text ''boom'') (Child_init []))
       = Returns Self (Child_fail (Text ''boom'') (Child_init []))
   \<and> payload_help_message (Child_fail (Text ''boom'') (Child_init [])) = []"
  by (simp add: Child_help_def Child_init_def Child_fail_def)

section \<open>Literal matching\<close>

lemma lstrip_nl_hd: "lstrip_nl s \<noteq> [] \<Longrightarrow> hd (lstrip_nl s) \<noteq> LF"
  unfolding lstrip_nl_def using hd_dropWhile [of "\<lambda>c. c = LF" s] by simp

lemma match_file:
  assumes "\<not> status_failed c" and "files w fn = Some content"
  shows "\<exists>c'. Child_match w (FileObj fn r) so c = Returns Self c'
           \<and> payload_output c' = payload_output c
           \<and> (status_failed c' \<longleftrightarrow> content \<noteq> payload_output c)"
  using assms by (simp add: Child_match_def Let_def Child_fail_def log_append_def)

text \<open>
  C7. A Child has not failed; the first loop of \<^verbatim>\<open>wait\<close> is left by \<^verbatim>\<open>break\<close>, the
  rest of the pipe is read, the process was not ended by \<^verbatim>\<open>SIGSEGV\<close>, and the
  expectation is a \<^verbatim>\<open>File\<close> that can be read. Then \<^verbatim>\<open>stdout\<close> returns the Child with
  the text read, \<^verbatim>\<open>\r\n\<close> replaced by \<^verbatim>\<open>\n\<close> and leading newlines stripped, as its
  output; the Child is failed exactly when the content of the file differs from that
  output. So the text \<^verbatim>\<open>a\r\nb\<close> satisfies the literal expectation \<^verbatim>\<open>a\nb\<close>. The output
  never starts with a newline.
\<close>

theorem C7_literal_match:
  assumes "\<not> status_failed c"
    and "poll_loop (obs_polls ob) [] = Broke out"
    and "drain (obs_reads ob) 0 out = Some (Inr out')"
    and "obs_signal ob \<noteq> Some SIGSEGV"
    and "files w fn = Some content"
  shows "\<exists>c'. Child_stdout w ob (Some (FileObj fn r)) so c = Some (Returns Self c')
           \<and> payload_output c' = lstrip_nl (replace_crlf (concat out'))
           \<and> (status_failed c' \<longleftrightarrow> content \<noteq> lstrip_nl (replace_crlf (concat out')))
           \<and> (concat out' = [CHR ''a'', CR, LF, CHR ''b''] \<and> content = [CHR ''a'', LF, CHR ''b'']
                \<longrightarrow> \<not> status_failed c')
           \<and> (payload_output c' \<noteq> [] \<longrightarrow> hd (payload_output c') \<noteq> LF)"
proof -
  have ex: "lstrip_nl (replace_crlf [CHR ''a'', CR, LF, CHR ''b'']) = [CHR ''a'', LF, CHR ''b'']"
    by (simp add: lstrip_nl_def CR_def LF_def)
  let ?buf = "lstrip_nl (replace_crlf (concat out'))"
  define c1 where "c1 = (Child_kill (obs_signal ob) (obs_exit ob)
      (c\<lparr>payload_output := ?buf\<rparr>))\<lparr>payload_exit := obs_exit ob\<rparr>"
  have w1: "Child_wait ob c = Some (Returns Self c1)"
    using wait_broke [OF assms(2,3), of c] assms(4) by (simp add: c1_def)
  have nf1: "\<not> status_failed c1" and o1: "payload_output c1 = ?buf"
    using assms(1) by (simp_all add: c1_def Child_kill_def)
  from match_file [OF nf1 assms(5), of r so]
  obtain c' where m: "Child_match w (FileObj fn r) so c1 = Returns Self c'"
    and o: "payload_output c' = ?buf"
    and f: "status_failed c' \<longleftrightarrow> content \<noteq> ?buf"
    using o1 by auto
  have r: "Child_stdout w ob (Some (FileObj fn r)) so c = Some (Returns Self c')"
    using assms(1) w1 m by (simp add: Child_stdout_def)
  have i: "concat out' = [CHR ''a'', CR, LF, CHR ''b''] \<and> content = [CHR ''a'', LF, CHR ''b'']
      \<longrightarrow> \<not> status_failed c'"
    using f ex by (simp only:) simp
  have h: "payload_output c' \<noteq> [] \<longrightarrow> hd (payload_output c') \<noteq> LF"
    using lstrip_nl_hd [of "replace_crlf (concat out')"] o by simp
  from r o f i h show ?thesis by blast
qed

theorem C7_literal_match_witness:
  "\<exists>c'. Child_stdout \<lparr>files = (\<lambda>n. if n = ''expected.txt'' then Some [CHR ''a'', LF, CHR ''b''] else None),
                        re_match = (\<lambda>p s. None)\<rparr>
            \<lparr>obs_polls = [Data [CHR ''a'', CR], Data [LF, CHR ''b''], Dead], obs_reads = (\<lambda>k. NoMore),
              obs_signal = None, obs_exit = Some 0\<rparr>
            (Some (FileObj ''expected.txt'' ''<File>'')) None (Child_init [])
          = Some (Returns Self c')
       \<and> payload_output c' = [CHR ''a'', LF, CHR ''b''] \<and> \<not> status_failed c'"
proof -
  let ?w = "\<lparr>files = (\<lambda>n. if n = ''expected.txt'' then Some [CHR ''a'', LF, CHR ''b''] else None),
                        re_match = (\<lambda>p s. None :: bool option)\<rparr>"
  let ?ob = "\<lparr>obs_polls = [Data [CHR ''a'', CR], Data [LF, CHR ''b''], Dead], obs_reads = (\<lambda>k. NoMore),
              obs_signal = None :: int option, obs_exit = Some (0::int)\<rparr>"
  have nf: "\<not> status_failed (Child_init [])" by (simp add: Child_init_def)
  have p: "poll_loop (obs_polls ?ob) [] = Broke [[CHR ''a'', CR], [LF, CHR ''b'']]" by simp
  have d: "drain (obs_reads ?ob) 0 [[CHR ''a'', CR], [LF, CHR ''b'']] = Some (Inr [[CHR ''a'', CR], [LF, CHR ''b'']])"
    by (simp add: drain.simps)
  have s: "obs_signal ?ob \<noteq> Some SIGSEGV" by simp
  have f: "files ?w ''expected.txt'' = Some [CHR ''a'', LF, CHR ''b'']" by simp
  have ex: "lstrip_nl (replace_crlf [CHR ''a'', CR, LF, CHR ''b'']) = [CHR ''a'', LF, CHR ''b'']"
    by (simp add: lstrip_nl_def CR_def LF_def)
  from C7_literal_match [OF nf p d s f, of "''<File>''" None]
  show ?thesis by (auto simp add: ex)
qed

section \<open>The check decorator: skipping and the result\<close>

text \<open>
  C2. A check declares the dependency \<open>d\<close> (a name, so not empty) and the result stored
  for \<open>d\<close> is not \<^verbatim>\<open>PASS\<close>, or there is none. Then the wrapper records \<^verbatim>\<open>SKIP\<close> for
  the check, in the test and in \<^verbatim>\<open>config.test_results\<close>, with the rationale about the
  frown, and raises nothing. The state it leaves is the same for every body, so the
  body is not run; no directory is copied (the file system is unchanged) and the
  current directory stays.
\<close>

theorem C2_skip:
  assumes "d \<noteq> []" and "test_results cfg d \<noteq> Some PASS"
  shows "check_wrapper func name (Some d) (cfg, self) =
           ((cfg\<lparr>test_results := (test_results cfg)(name \<mapsto> SKIP)\<rparr>,
             self\<lparr>tc_result := SKIP,
                  tc_rationale := Some (Text (''can'' @ [SQ] @ ''t check until a frown turns upside down''))\<rparr>),
            None)
       \<and> check_wrapper func name (Some d) (cfg, self) = check_wrapper func' name (Some d) (cfg, self)
       \<and> fs (fst (fst (check_wrapper func name (Some d) (cfg, self)))) = fs cfg
       \<and> cwd (fst (fst (check_wrapper func name (Some d) (cfg, self)))) = cwd cfg
       \<and> tc_result (snd (fst (check_wrapper func name (Some d) (cfg, self)))) = SKIP
       \<and> test_results (fst (fst (check_wrapper func name (Some d) (cfg, self)))) name = Some SKIP"
proof -
  have "results_get (test_results cfg) d \<noteq> PASS"
    using assms(2) by (cases "test_results cfg d") (simp_all add: results_get_def)
  with assms(1) have *: "\<And>f. check_wrapper f name (Some d) (cfg, self) =
           ((cfg\<lparr>test_results := (test_results cfg)(name \<mapsto> SKIP)\<rparr>,
             self\<lparr>tc_result := SKIP,
                  tc_rationale := Some (Text (''can'' @ [SQ] @ ''t check until a frown turns upside down''))\<rparr>),
            None)"
    by (simp add: check_wrapper_def)
  show ?thesis by (simp add: *)
qed

theorem C2_skip_witness:
  "tc_result (snd (fst (check_wrapper (\<lambda>st. (st, Some OSError)) ''runs'' (Some ''compiles'')
       (\<lparr>tempdir = ''/tmp/t'', test_results = [''compiles'' \<mapsto> FAIL],
         fs = [''/tmp/t/compiles'' \<mapsto> ()], cwd = ''/''\<rparr>, Checks_init)))) = SKIP
   \<and> fs (fst (fst (check_wrapper (\<lambda>st. (st, Some OSError)) ''runs'' (Some ''compiles'')
       (\<lparr>tempdir = ''/tmp/t'', test_results = [''compiles'' \<mapsto> FAIL],
         fs = [''/tmp/t/compiles'' \<mapsto> ()], cwd = ''/''\<rparr>, Checks_init)))) ''/tmp/t/runs'' = None
   \<and> tc_result (snd (fst (check_wrapper (\<lambda>st. (st, Some OSError)) ''runs'' (Some ''compiles'')
       (\<lparr>tempdir = ''/tmp/t'', test_results = Map.empty,
         fs = [''/tmp/t/_'' \<mapsto> ()], cwd = ''/''\<rparr>, Checks_init)))) = SKIP"
proof -
  let ?a = "\<lparr>tempdir = ''/tmp/t'', test_results = [''compiles'' \<mapsto> FAIL],
         fs = [''/tmp/t/compiles'' \<mapsto> ()], cwd = ''/''\<rparr>"
  let ?b = "\<lparr>tempdir = ''/tmp/t'', test_results = (Map.empty :: string \<Rightarrow> result option),
         fs = [''/tmp/t/_'' \<mapsto> ()], cwd = ''/''\<rparr>"
  have d: "''compiles'' \<noteq> []" by simp
  have a: "test_results ?a ''compiles'' \<noteq> Some PASS" by simp
  have b: "test_results ?b ''compiles'' \<noteq> Some PASS" by simp
  from C2_skip [OF d a, of "\<lambda>st. (st, Some OSError)" "''runs''" Checks_init]
       C2_skip [OF d b, of "\<lambda>st. (st, Some OSError)" "''runs''" Checks_init]
  show ?thesis by simp
qed

text \<open>When the dependency does not block the check, the wrapper copies the directory
  and runs the body.\<close>

lemma check_wrapper_runs:
  assumes "dependency = None \<or> dependency = Some [] \<or>
           (\<exists>d. dependency = Some d \<and> test_results cfg d = Some PASS)"
  shows "check_wrapper func name dependency (cfg, self) =
    (let dst_dir = path_join (tempdir cfg) name;
         self1 = self\<lparr>tc_dir := Some dst_dir\<rparr>;
         src_dir = path_join (tempdir cfg)
                   (case dependency of None \<Rightarrow> ''_'' | Some d \<Rightarrow> if d = [] then ''_'' else d)
     in case copytree src_dir dst_dir (fs cfg) of
          Inl e \<Rightarrow> ((cfg, self1), Some e)
        | Inr fs1 \<Rightarrow>
            (case func (cfg\<lparr>fs := fs1, cwd := dst_dir\<rparr>, self1) of
               ((cfg2, self2), None) \<Rightarrow>
                 if tc_children self2 \<noteq> [] \<and> status_failed (last (tc_children self2))
                 then
                   ((cfg2\<lparr>test_results := (test_results cfg2)(name \<mapsto> FAIL)\<rparr>,
                     self2\<lparr>tc_rationale :=
                              Some (payload_error_message (last (tc_children self2))),
                            tc_helpers :=
                              Some (payload_help_message (last (tc_children self2))),
                            tc_result := FAIL\<rparr>),
                    None)
                 else
                   ((cfg2\<lparr>test_results := (test_results cfg2)(name \<mapsto> PASS)\<rparr>,
                     self2\<lparr>tc_result := PASS\<rparr>),
                    None)
             | ((cfg2, self2), Some (Error ra he re ctx)) \<Rightarrow>
                 ((cfg2\<lparr>test_results := (test_results cfg2)(name \<mapsto> re)\<rparr>,
                   self2\<lparr>tc_rationale := ra, tc_helpers := he, tc_result := re\<rparr>),
                  None)
             | ((cfg2, self2), Some e) \<Rightarrow> ((cfg2, self2), Some e)))"
  using assms by (auto simp add: check_wrapper_def results_get_def)

text \<open>
  C9. The check is not blocked, its directory is copied and the body returns without
  raising, leaving the test \<open>self2\<close>. Then the wrapper raises nothing and stores the
  result of the test in \<^verbatim>\<open>config.test_results\<close>. With no Child spawned the result is
  \<^verbatim>\<open>PASS\<close>. Otherwise it depends on the last Child alone, whatever the Children
  before it are: if the last Child has failed, the result is \<^verbatim>\<open>FAIL\<close>, the rationale
  its error message and the helpers its help message; if not, the result is \<^verbatim>\<open>PASS\<close>
  and rationale and helpers are as the body left them.
\<close>

theorem C9_last_child:
  assumes "dependency = None \<or> dependency = Some [] \<or>
           (\<exists>d. dependency = Some d \<and> test_results cfg d = Some PASS)"
    and "copytree (path_join (tempdir cfg)
            (case dependency of None \<Rightarrow> ''_'' | Some d \<Rightarrow> if d = [] then ''_'' else d))
          (path_join (tempdir cfg) name) (fs cfg) = Inr fs1"
    and "func (cfg\<lparr>fs := fs1, cwd := path_join (tempdir cfg) name\<rparr>,
               self\<lparr>tc_dir := Some (path_join (tempdir cfg) name)\<rparr>) = ((cfg2, self2), None)"
  shows "\<exists>cfg3 self3. check_wrapper func name dependency (cfg, self) = ((cfg3, self3), None)
      \<and> test_results cfg3 name = Some (tc_result self3)
      \<and> (tc_children self2 = [] \<longrightarrow> tc_result self3 = PASS)
      \<and> (\<forall>cs c. tc_children self2 = cs @ [c] \<longrightarrow>
            (if status_failed c
             then tc_result self3 = FAIL
                \<and> tc_rationale self3 = Some (payload_error_message c)
                \<and> tc_helpers self3 = Some (payload_help_message c)
             else tc_result self3 = PASS
                \<and> tc_rationale self3 = tc_rationale self2
                \<and> tc_helpers self3 = tc_helpers self2))"
  using assms(2,3) by (auto simp add: check_wrapper_runs [OF assms(1)] Let_def)

theorem C9_last_child_witness:
  "(\<exists>cfg3 self3. check_wrapper
        (\<lambda>(cfg, self). ((cfg, self\<lparr>tc_children :=
            [Child_fail (Text ''boom'') (Child_init []), Child_init []]\<rparr>), None))
        ''exists'' None
        (\<lparr>tempdir = ''/tmp/t'', test_results = Map.empty, fs = [''/tmp/t/_'' \<mapsto> ()],
          cwd = ''/''\<rparr>, Checks_init) = ((cfg3, self3), None)
      \<and> tc_result self3 = PASS \<and> test_results cfg3 ''exists'' = Some PASS)
   \<and> (\<exists>cfg3 self3. check_wrapper
        (\<lambda>(cfg, self). ((cfg, self\<lparr>tc_children :=
            [Child_init [], Child_fail (Text ''boom'') (Child_init [])]\<rparr>), None))
        ''exists'' None
        (\<lparr>tempdir = ''/tmp/t'', test_results = Map.empty, fs = [''/tmp/t/_'' \<mapsto> ()],
          cwd = ''/''\<rparr>, Checks_init) = ((cfg3, self3), None)
      \<and> tc_result self3 = FAIL \<and> tc_rationale self3 = Some (Text ''boom'')
      \<and> tc_helpers self3 = Some [] \<and> test_results cfg3 ''exists'' = Some FAIL)"
proof -
  let ?cfg = "\<lparr>tempdir = ''/tmp/t'', test_results = (Map.empty :: string \<Rightarrow> result option),
               fs = [''/tmp/t/_'' \<mapsto> ()], cwd = ''/''\<rparr>"
  let ?fs1 = "[''/tmp/t/_'' \<mapsto> (), ''/tmp/t/exists'' \<mapsto> ()]"
  let ?cfg2 = "?cfg\<lparr>fs := ?fs1, cwd := ''/tmp/t/exists''\<rparr>"
  let ?self1 = "Checks_init\<lparr>tc_dir := Some ''/tmp/t/exists''\<rparr>"
  let ?f = "\<lambda>cs. (\<lambda>(cfg :: unit config, self). ((cfg, self\<lparr>tc_children := cs\<rparr>), None :: exn option))"
  let ?bad = "Child_fail (Text ''boom'') (Child_init [])"
  have pj: "path_join ''/tmp/t'' ''exists'' = ''/tmp/t/exists''"
    "path_join ''/tmp/t'' ''_'' = ''/tmp/t/_''"
    by (simp_all add: path_join_def)
  have dep: "(None :: string option) = None \<or> (None :: string option) = Some [] \<or>
           (\<exists>d. (None :: string option) = Some d \<and> test_results ?cfg d = Some PASS)"
    by simp
  have cp: "copytree (path_join (tempdir ?cfg)
            (case (None :: string option) of None \<Rightarrow> ''_'' | Some d \<Rightarrow> if d = [] then ''_'' else d))
          (path_join (tempdir ?cfg) ''exists'') (fs ?cfg) = Inr ?fs1"
    by (simp add: pj copytree_def)
  have fa: "?f [?bad, Child_init []] (?cfg\<lparr>fs := ?fs1, cwd := path_join (tempdir ?cfg) ''exists''\<rparr>,
               Checks_init\<lparr>tc_dir := Some (path_join (tempdir ?cfg) ''exists'')\<rparr>)
          = ((?cfg2, ?self1\<lparr>tc_children := [?bad, Child_init []]\<rparr>), None)"
    by (simp add: pj)
  have fb: "?f [Child_init [], ?bad] (?cfg\<lparr>fs := ?fs1, cwd := path_join (tempdir ?cfg) ''exists''\<rparr>,
               Checks_init\<lparr>tc_dir := Some (path_join (tempdir ?cfg) ''exists'')\<rparr>)
          = ((?cfg2, ?self1\<lparr>tc_children := [Child_init [], ?bad]\<rparr>), None)"
    by (simp add: pj)
  have ca: "tc_children (?self1\<lparr>tc_children := [?bad, Child_init []]\<rparr>) = [?bad] @ [Child_init []]"
    and cb: "tc_children (?self1\<lparr>tc_children := [Child_init [], ?bad]\<rparr>) = [Child_init []] @ [?bad]"
    by simp_all
  have st: "\<not> status_failed (Child_init [])" "status_failed ?bad"
    "payload_error_message ?bad = Text ''boom''" "payload_help_message ?bad = []"
    by (simp_all add: Child_init_def Child_fail_def)
  from C9_last_child [of None ?cfg "''exists''" ?fs1 "?f [?bad, Child_init []]" Checks_init
      ?cfg2 "?self1\<lparr>tc_children := [?bad, Child_init []]\<rparr>", OF dep cp fa] ca st
  have a: "\<exists>cfg3 self3. check_wrapper (?f [?bad, Child_init []]) ''exists'' None (?cfg, Checks_init)
        = ((cfg3, self3), None) \<and> tc_result self3 = PASS \<and> test_results cfg3 ''exists'' = Some PASS"
    by (metis (no_types, lifting))
  from C9_last_child [of None ?cfg "''exists''" ?fs1 "?f [Child_init [], ?bad]" Checks_init
      ?cfg2 "?self1\<lparr>tc_children := [Child_init [], ?bad]\<rparr>", OF dep cp fb] cb st
  have b: "\<exists>cfg3 self3. check_wrapper (?f [Child_init [], ?bad]) ''exists'' None (?cfg, Checks_init)
        = ((cfg3, self3), None) \<and> tc_result self3 = FAIL \<and> tc_rationale self3 = Some (Text ''boom'')
      \<and> tc_helpers self3 = Some [] \<and> test_results cfg3 ''exists'' = Some FAIL"
    by (metis (no_types, lifting))
  from a b show ?thesis by blast
qed

section \<open>The valgrind report: each message once, in the order first seen\<close>













section \<open>The display form of a Mismatch\<close>

lemma concat_singletons: "(\<And>c. c \<in> set s \<Longrightarrow> f c = [c]) \<Longrightarrow> concat (map f s) = s"
  by (induction s) simp_all

text \<open>A printable string without a backslash, and not holding both kinds of quote, is
  its own \<^verbatim>\<open>repr\<close> between the quotes.\<close>

lemma repr_plain:
  assumes "list_all (\<lambda>c. printable c \<and> c \<noteq> BSL) s" and "\<not> (SQ \<in> set s \<and> DQ \<in> set s)"
  shows "butlast (tl (repr_str s)) = s"
proof -
  have "\<And>c. c \<in> set s \<Longrightarrow> repr_char (repr_quote s) c = [c]"
  proof -
    fix c assume c: "c \<in> set s"
    with assms(1) have p: "printable c" and b: "c \<noteq> BSL" by (auto simp: list_all_iff)
    from c assms(2) have q: "c \<noteq> repr_quote s" by (auto simp: repr_quote_def)
    from p have "c \<noteq> TAB" "c \<noteq> LF" "c \<noteq> CR"
      by (auto simp: printable_def TAB_def LF_def CR_def)
    with p b q show "repr_char (repr_quote s) c = [c]" by (simp add: repr_char_def)
  qed
  then have "concat (map (repr_char (repr_quote s)) s) = s" by (rule concat_singletons)
  then show ?thesis by (simp add: repr_str_def Let_def butlast_append)
qed

text \<open>
  C10. \<^verbatim>\<open>Mismatch.raw\<close> gives the bare \<^verbatim>\<open>EOF\<close> for \<^verbatim>\<open>EOF\<close>; a list is joined with
  newlines first; a string is shown between double quotes as its \<^verbatim>\<open>repr\<close> without
  the quotes, cut to its first 15 characters followed by \<^verbatim>\<open>...\<close> when that is longer
  than 15 characters, so the result has at most 20 characters. For a printable string
  without a backslash, and not holding both kinds of quote, it is the string itself
  that is shown, cut to 15 characters and followed by \<^verbatim>\<open>...\<close> when longer. The display
  form of the Mismatch is \<^verbatim>\<open>expected\<close> the one, \<^verbatim>\<open>not\<close> the other.
\<close>

theorem C10_raw:
  "Mismatch_raw EOFv = ''EOF''
   \<and> Mismatch_raw (StrList xs) = Mismatch_raw (Str (join_nl xs))
   \<and> Mismatch_raw (Str s) =
        [DQ] @ (if length (butlast (tl (repr_str s))) > 15
                then take 15 (butlast (tl (repr_str s))) @ ''...''
                else butlast (tl (repr_str s))) @ [DQ]
   \<and> length (Mismatch_raw (Str s)) \<le> 20
   \<and> (list_all (\<lambda>c. printable c \<and> c \<noteq> BSL) s \<and> \<not> (SQ \<in> set s \<and> DQ \<in> set s) \<longrightarrow>
        Mismatch_raw (Str s) = [DQ] @ (if length s > 15 then take 15 s @ ''...'' else s) @ [DQ])
   \<and> Mismatch_str e a = ''expected '' @ Mismatch_raw e @ '', not '' @ Mismatch_raw a"
proof -
  have 1: "Mismatch_raw (Str s) =
        [DQ] @ (if length (butlast (tl (repr_str s))) > 15
                then take 15 (butlast (tl (repr_str s))) @ ''...''
                else butlast (tl (repr_str s))) @ [DQ]"
    by (simp add: Mismatch_raw_def Let_def)
  have 2: "length (Mismatch_raw (Str s)) \<le> 20"
    unfolding 1 by simp
  have 3: "list_all (\<lambda>c. printable c \<and> c \<noteq> BSL) s \<and> \<not> (SQ \<in> set s \<and> DQ \<in> set s) \<longrightarrow>
        Mismatch_raw (Str s) = [DQ] @ (if length s > 15 then take 15 s @ ''...'' else s) @ [DQ]"
    using repr_plain [of s] unfolding 1 by auto
  have 4: "Mismatch_raw EOFv = ''EOF''" "Mismatch_raw (StrList xs) = Mismatch_raw (Str (join_nl xs))"
    by (simp_all add: Mismatch_raw_def)
  from 1 2 3 4 show ?thesis by (simp add: Mismatch_str_def)
qed

theorem C10_raw_witness:
  "Mismatch_raw (Str ''Hello'') = [DQ] @ ''Hello'' @ [DQ]
   \<and> Mismatch_raw (Str ''Hello, wonderful world'') = [DQ] @ ''Hello, wonderfu...'' @ [DQ]
   \<and> Mismatch_raw (StrList [''Hello, world!'', ''Goodbye''])
       = [DQ] @ ''Hello, world!'' @ [BSL] @ ''n...'' @ [DQ]
   \<and> Mismatch_str (Str ''Goodbye'') EOFv
       = ''expected '' @ [DQ] @ ''Goodbye'' @ [DQ] @ '', not EOF''"
proof -
  have p: "list_all (\<lambda>c. printable c \<and> c \<noteq> BSL) ''Hello'' \<and> \<not> (SQ \<in> set ''Hello'' \<and> DQ \<in> set ''Hello'')"
    "list_all (\<lambda>c. printable c \<and> c \<noteq> BSL) ''Hello, wonderful world''
       \<and> \<not> (SQ \<in> set ''Hello, wonderful world'' \<and> DQ \<in> set ''Hello, wonderful world'')"
    "list_all (\<lambda>c. printable c \<and> c \<noteq> BSL) ''Goodbye'' \<and> \<not> (SQ \<in> set ''Goodbye'' \<and> DQ \<in> set ''Goodbye'')"
    by (simp_all add: printable_def BSL_def SQ_def DQ_def)
  have r: "butlast (tl (repr_str (join_nl [''Hello, world!'', ''Goodbye''])))
      = ''Hello, world!'' @ [BSL] @ ''nGoodbye''"
    by (simp add: repr_str_def repr_quote_def repr_char_def printable_def Let_def
        BSL_def SQ_def DQ_def LF_def TAB_def CR_def)
  have a0: "Mismatch_raw (Str ''Hello'')
      = [DQ] @ (if length ''Hello'' > 15 then take 15 ''Hello'' @ ''...'' else ''Hello'') @ [DQ]"
    using C10_raw [of "[]" "''Hello''" EOFv EOFv] p(1) by blast
  have a: "Mismatch_raw (Str ''Hello'') = [DQ] @ ''Hello'' @ [DQ]"
    unfolding a0 by simp
  have b0: "Mismatch_raw (Str ''Hello, wonderful world'')
      = [DQ] @ (if length ''Hello, wonderful world'' > 15
                then take 15 ''Hello, wonderful world'' @ ''...''
                else ''Hello, wonderful world'') @ [DQ]"
    using C10_raw [of "[]" "''Hello, wonderful world''" EOFv EOFv] p(2) by blast
  have b: "Mismatch_raw (Str ''Hello, wonderful world'') = [DQ] @ ''Hello, wonderfu...'' @ [DQ]"
    unfolding b0 by simp
  have g0: "Mismatch_raw (Str ''Goodbye'')
      = [DQ] @ (if length ''Goodbye'' > 15 then take 15 ''Goodbye'' @ ''...'' else ''Goodbye'') @ [DQ]"
    using C10_raw [of "[]" "''Goodbye''" EOFv EOFv] p(3) by blast
  have g: "Mismatch_raw (Str ''Goodbye'') = [DQ] @ ''Goodbye'' @ [DQ]"
    unfolding g0 by simp
  have j0: "Mismatch_raw (Str (join_nl [''Hello, world!'', ''Goodbye''])) =
        [DQ] @ (if length (butlast (tl (repr_str (join_nl [''Hello, world!'', ''Goodbye''])))) > 15
                then take 15 (butlast (tl (repr_str (join_nl [''Hello, world!'', ''Goodbye''])))) @ ''...''
                else butlast (tl (repr_str (join_nl [''Hello, world!'', ''Goodbye''])))) @ [DQ]"
    using C10_raw [of "[]" "join_nl [''Hello, world!'', ''Goodbye'']" EOFv EOFv] by blast
  have j: "Mismatch_raw (Str (join_nl [''Hello, world!'', ''Goodbye'']))
      = [DQ] @ ''Hello, world!'' @ [BSL] @ ''n...'' @ [DQ]"
    unfolding j0 r by simp
  have l: "Mismatch_raw (StrList [''Hello, world!'', ''Goodbye''])
      = Mismatch_raw (Str (join_nl [''Hello, world!'', ''Goodbye'']))"
    using C10_raw [of "[''Hello, world!'', ''Goodbye'']" "[]" EOFv EOFv] by blast
  have e: "Mismatch_raw EOFv = ''EOF''"
    using C10_raw [of "[]" "[]" EOFv EOFv] by blast
  have m: "Mismatch_str (Str ''Goodbye'') EOFv
      = ''expected '' @ Mismatch_raw (Str ''Goodbye'') @ '', not '' @ Mismatch_raw EOFv"
    using C10_raw [of "[]" "[]" "Str ''Goodbye''" EOFv] by blast
  show ?thesis unfolding m l j a b g e by simp
qed

end
